theory Spec2Isabelle
  imports Complex_Main "HOL-Library.Sublist" "HOL-Library.AList"
begin

section \<open>Python values, exceptions and effects\<close>

text \<open>
  The values the external service hands to the script (task status, task configuration,
  collection indices) are JSON-like Python values. Dictionaries are association lists
  with string keys; a lookup takes the first binding of a key.
\<close>

datatype pyval =
    PyNone
  | PyInt int
  | PyStr string
  | PyDict "(string \<times> pyval) list"

text \<open>
  Messages are kept structured instead of formatted: each constructor stands for one
  f-string of the source, with the values that the f-string interpolates.
\<close>

datatype message =
    RunningExports nat nat
  | TaskFailed pyval
  | PollingInterrupted string
  | RetryingIn real
  | MaxRetriesReached
  | UnsupportedExportDestination pyval
  | ExportingImage pyval
  | SleepLengthNegative

datatype exn =
    ConnectionError string
  | TimeoutError string
  | KeyError string
  | TypeError
  | AttributeError
  | ValueError message
  | OtherException string

datatype event =
    Print message
  | LogError message
  | LogWarning message
  | LogInfo message
  | Sleep real

text \<open>The exceptions caught by \<^verbatim>\<open>except (ConnectionError, TimeoutError)\<close>.\<close>

fun transient :: "exn \<Rightarrow> bool" where
  "transient (ConnectionError m) = True"
| "transient (TimeoutError m) = True"
| "transient e = False"

text \<open>\<^verbatim>\<open>str(e)\<close> for the two exceptions the handler formats.\<close>

fun exn_str :: "exn \<Rightarrow> string" where
  "exn_str (ConnectionError m) = m"
| "exn_str (TimeoutError m) = m"
| "exn_str (KeyError k) = k"
| "exn_str (OtherException m) = m"
| "exn_str e = []"

text \<open>\<^verbatim>\<open>key in v\<close> for a string key.\<close>

fun py_contains :: "string \<Rightarrow> pyval \<Rightarrow> exn + bool" where
  "py_contains k (PyDict d) = Inr (k \<in> set (map fst d))"
| "py_contains k (PyStr s) = Inr (sublist k s)"
| "py_contains k v = Inl TypeError"

text \<open>\<^verbatim>\<open>v[key]\<close> for a string key.\<close>

fun py_getitem :: "pyval \<Rightarrow> string \<Rightarrow> exn + pyval" where
  "py_getitem (PyDict d) k = (case map_of d k of None \<Rightarrow> Inl (KeyError k) | Some x \<Rightarrow> Inr x)"
| "py_getitem v k = Inl TypeError"

section \<open>Tasks and the tasks manager\<close>

text \<open>
  A task is an opaque handle of the external service. The answers of its methods are not
  under the script's control: they may change from call to call and may raise. A global
  clock counts the calls made to the outside (task methods and the random generator);
  \<open>active t n\<close> is what \<^verbatim>\<open>t.active()\<close> answers when it is the call made at
  tick \<open>n\<close>, and likewise for \<open>status\<close>.
\<close>

datatype task_type = EXPORT_IMAGE | OTHER_TYPE string

record task =
  task_id :: pyval
  task_type :: task_type
  config :: pyval
  active :: "nat \<Rightarrow> exn + bool"
  status :: "nat \<Rightarrow> exn + pyval"

type_synonym logger = string

record tasks_manager =
  tasks :: "task list"
  logger :: "logger option"
  paths :: "pyval list"

record world =
  clock :: nat
  events :: "event list"

definition COMPLETED :: pyval where "COMPLETED = PyStr ''COMPLETED''"
definition FAILED :: pyval where "FAILED = PyStr ''FAILED''"
definition CANCEL_REQUESTED :: pyval where "CANCEL_REQUESTED = PyStr ''CANCEL_REQUESTED''"
definition CANCELLED :: pyval where "CANCELLED = PyStr ''CANCELLED''"

text \<open>\<^verbatim>\<open>TasksManager.__init__\<close>\<close>

definition TasksManager :: "task list \<Rightarrow> logger option \<Rightarrow> tasks_manager" where
  "TasksManager ts lg = \<lparr>tasks = ts, logger = lg, paths = []\<rparr>"

section \<open>The polling loop\<close>

text \<open>\<^verbatim>\<open>any(task.active() for task in self.tasks)\<close>: stops at the first true answer.\<close>

fun any_active :: "task list \<Rightarrow> nat \<Rightarrow> (exn + bool) \<times> nat" where
  "any_active [] c = (Inr False, c)"
| "any_active (t # ts) c =
     (case active t c of
        Inl e \<Rightarrow> (Inl e, Suc c)
      | Inr b \<Rightarrow> if b then (Inr True, Suc c) else any_active ts (Suc c))"

text \<open>
  \<^verbatim>\<open>sum(1 for t in active_tasks if t.task_type == EXPORT_IMAGE and t.status()['state'] == 'RUNNING')\<close>
\<close>

fun running_exports :: "task list \<Rightarrow> nat \<Rightarrow> (exn + nat) \<times> nat" where
  "running_exports [] c = (Inr 0, c)"
| "running_exports (t # ts) c =
     (if task_type t = EXPORT_IMAGE then
        (case status t c of
           Inl e \<Rightarrow> (Inl e, Suc c)
         | Inr s \<Rightarrow>
            (case py_getitem s ''state'' of
               Inl e \<Rightarrow> (Inl e, Suc c)
             | Inr v \<Rightarrow>
                (case running_exports ts (Suc c) of
                   (Inl e, c') \<Rightarrow> (Inl e, c')
                 | (Inr n, c') \<Rightarrow> (Inr (if v = PyStr ''RUNNING'' then Suc n else n), c'))))
      else running_exports ts c)"

text \<open>
  \<^verbatim>\<open>for task in self.tasks: if task.status() == TaskStatus.FAILED: ...\<close>:
  the first task whose status equals FAILED, if any.
\<close>

fun first_failed :: "task list \<Rightarrow> nat \<Rightarrow> (exn + task option) \<times> nat" where
  "first_failed [] c = (Inr None, c)"
| "first_failed (t # ts) c =
     (case status t c of
        Inl e \<Rightarrow> (Inl e, Suc c)
      | Inr s \<Rightarrow> if s = FAILED then (Inr (Some t), Suc c) else first_failed ts (Suc c))"

text \<open>
  \<^verbatim>\<open>all(task.status() == TaskStatus.COMPLETED for task in self.tasks)\<close>: stops at the
  first other answer.
\<close>

fun all_completed :: "task list \<Rightarrow> nat \<Rightarrow> (exn + bool) \<times> nat" where
  "all_completed [] c = (Inr True, c)"
| "all_completed (t # ts) c =
     (case status t c of
        Inl e \<Rightarrow> (Inl e, Suc c)
      | Inr s \<Rightarrow> if s = COMPLETED then all_completed ts (Suc c) else (Inr False, Suc c))"

text \<open>
  \<^verbatim>\<open>time.sleep(t)\<close> raises ValueError for a negative length. The length is a real
  number here: the OverflowError of a length beyond the platform's time type and the
  ValueError of a NaN are outside the model.
\<close>

definition sleep :: "real \<Rightarrow> world \<Rightarrow> (exn + unit) \<times> world" where
  "sleep t w =
     (if t < 0 then (Inl (ValueError SleepLengthNegative), w)
      else (Inr (), w\<lparr>events := events w @ [Sleep t]\<rparr>))"

text \<open>
  The body of the \<^verbatim>\<open>try\<close>. \<open>Inr None\<close>: the body ran to its end;
  \<open>Inr (Some b)\<close>: it returned \<open>b\<close>; \<open>Inl e\<close>: it raised \<open>e\<close>.
  A manager without logger raises AttributeError at \<^verbatim>\<open>self.logger.error\<close>.
\<close>

definition poll_try :: "tasks_manager \<Rightarrow> world \<Rightarrow> (exn + bool option) \<times> world" where
  "poll_try tm w =
     (case running_exports (tasks tm) (clock w) of
        (Inl e, c1) \<Rightarrow> (Inl e, w\<lparr>clock := c1\<rparr>)
      | (Inr n, c1) \<Rightarrow>
          (let w1 = w\<lparr>clock := c1,
                       events := events w @ [Print (RunningExports n (length (tasks tm)))]\<rparr>
           in case first_failed (tasks tm) c1 of
                (Inl e, c2) \<Rightarrow> (Inl e, w1\<lparr>clock := c2\<rparr>)
              | (Inr (Some t), c2) \<Rightarrow>
                  (case logger tm of
                     None \<Rightarrow> (Inl AttributeError, w1\<lparr>clock := c2\<rparr>)
                   | Some lg \<Rightarrow>
                       (Inr (Some False),
                        w1\<lparr>clock := c2, events := events w1 @ [LogError (TaskFailed (task_id t))]\<rparr>))
              | (Inr None, c2) \<Rightarrow>
                  (case sleep 10 (w1\<lparr>clock := c2\<rparr>) of
                     (Inl e, w2) \<Rightarrow> (Inl e, w2)
                   | (Inr u, w2) \<Rightarrow> (Inr None, w2))))"

text \<open>What one iteration of the loop decides.\<close>

datatype control = Continue nat | Stop "exn + bool"

text \<open>
  The \<^verbatim>\<open>except (ConnectionError, TimeoutError)\<close> handler, entered with the
  counter \<open>retries\<close> and the caught exception. \<open>uniform n\<close> is what
  \<^verbatim>\<open>random.uniform(0, 1)\<close> answers at tick \<open>n\<close>. The delay is computed in real
  arithmetic: the rounding of the floating-point sum and the OverflowError of a power or
  a sum beyond the floating-point range are outside the model.
\<close>

definition poll_except ::
  "tasks_manager \<Rightarrow> (nat \<Rightarrow> real) \<Rightarrow> int \<Rightarrow> real \<Rightarrow> nat \<Rightarrow> exn \<Rightarrow> world \<Rightarrow> control \<times> world" where
  "poll_except tm uniform max_retries backoff_factor retries e w =
     (case logger tm of
        None \<Rightarrow> (Stop (Inl AttributeError), w)
      | Some lg \<Rightarrow>
          (let w1 = w\<lparr>events := events w @ [LogWarning (PollingInterrupted (exn_str e))]\<rparr>
           in if int retries < max_retries then
                (let retries' = retries + 1;
                     sleep_time = backoff_factor ^ retries' + uniform (clock w1);
                     w2 = w1\<lparr>clock := Suc (clock w1),
                              events := events w1 @ [LogInfo (RetryingIn sleep_time)]\<rparr>
                 in case sleep sleep_time w2 of
                      (Inl e', w3) \<Rightarrow> (Stop (Inl e'), w3)
                    | (Inr u, w3) \<Rightarrow> (Continue retries', w3))
              else
                (Stop (Inr False), w1\<lparr>events := events w1 @ [LogError MaxRetriesReached]\<rparr>)))"

text \<open>One iteration: the \<^verbatim>\<open>try\<close> with its handler.\<close>

definition poll_iteration ::
  "tasks_manager \<Rightarrow> (nat \<Rightarrow> real) \<Rightarrow> int \<Rightarrow> real \<Rightarrow> nat \<Rightarrow> world \<Rightarrow> control \<times> world" where
  "poll_iteration tm uniform max_retries backoff_factor retries w =
     (case poll_try tm w of
        (Inr None, w') \<Rightarrow> (Continue 0, w')
      | (Inr (Some b), w') \<Rightarrow> (Stop (Inr b), w')
      | (Inl e, w') \<Rightarrow>
          if transient e then poll_except tm uniform max_retries backoff_factor retries e w'
          else (Stop (Inl e), w'))"

text \<open>
  The \<^verbatim>\<open>while\<close> loop, with fuel: \<open>None\<close> means that the loop has not ended within
  \<open>fuel\<close> iterations. The manager is threaded through and returned.
\<close>

fun poll_loop ::
  "nat \<Rightarrow> tasks_manager \<Rightarrow> (nat \<Rightarrow> real) \<Rightarrow> int \<Rightarrow> real \<Rightarrow> nat \<Rightarrow> world
     \<Rightarrow> ((exn + bool) \<times> tasks_manager \<times> world) option" where
  "poll_loop 0 tm uniform max_retries backoff_factor retries w = None"
| "poll_loop (Suc fuel) tm uniform max_retries backoff_factor retries w =
     (case any_active (tasks tm) (clock w) of
        (Inl e, c) \<Rightarrow> Some (Inl e, tm, w\<lparr>clock := c\<rparr>)
      | (Inr active_left, c) \<Rightarrow>
          if active_left then
            (case poll_iteration tm uniform max_retries backoff_factor retries (w\<lparr>clock := c\<rparr>) of
               (Stop r, w') \<Rightarrow> Some (r, tm, w')
             | (Continue retries', w') \<Rightarrow>
                 poll_loop fuel tm uniform max_retries backoff_factor retries' w')
          else
            (case all_completed (tasks tm) c of
               (r, c') \<Rightarrow> Some (r, tm, w\<lparr>clock := c'\<rparr>)))"

text \<open>\<^verbatim>\<open>TasksManager.poll\<close>: the loop entered with \<^verbatim>\<open>retries = 0\<close>.\<close>

definition poll ::
  "nat \<Rightarrow> tasks_manager \<Rightarrow> (nat \<Rightarrow> real) \<Rightarrow> int \<Rightarrow> real \<Rightarrow> world
     \<Rightarrow> ((exn + bool) \<times> tasks_manager \<times> world) option" where
  "poll fuel tm uniform max_retries backoff_factor w =
     poll_loop fuel tm uniform max_retries backoff_factor 0 w"

section \<open>Export path resolution\<close>

text \<open>\<^verbatim>\<open>v[k1][k2]...\<close>: subscripts applied from left to right.\<close>

fun py_path :: "pyval \<Rightarrow> string list \<Rightarrow> exn + pyval" where
  "py_path v [] = Inr v"
| "py_path v (k # ks) = (case py_getitem v k of Inl e \<Rightarrow> Inl e | Inr v' \<Rightarrow> py_path v' ks)"

text \<open>
  \<^verbatim>\<open>str.lower\<close> on the ASCII letters (a string is a list of bytes here), and
  \<^verbatim>\<open>v.lower()\<close> on a value: only a string has the method.
\<close>

definition ascii_lower :: "char \<Rightarrow> char" where
  "ascii_lower ch =
     (let n = (of_char ch :: nat) in if 65 \<le> n \<and> n \<le> 90 then char_of (n + 32) else ch)"

fun py_lower :: "pyval \<Rightarrow> exn + string" where
  "py_lower (PyStr s) = Inr (map ascii_lower s)"
| "py_lower v = Inl AttributeError"

text \<open>\<^verbatim>\<open>s.replace("_", "")\<close>\<close>

definition remove_underscores :: "string \<Rightarrow> string" where
  "remove_underscores s = filter (\<lambda>ch. ch \<noteq> CHR ''_'') s"

text \<open>
  What an f-string makes of a value: a string is taken as it is. The text Python's
  built-in \<^verbatim>\<open>str\<close> gives for the other values is the parameter \<open>repr\<close>.
\<close>

fun py_str :: "(pyval \<Rightarrow> string) \<Rightarrow> pyval \<Rightarrow> string" where
  "py_str repr (PyStr s) = s"
| "py_str repr v = repr v"

text \<open>
  The branches of the loop body of \<^verbatim>\<open>get_export_destination\<close> for one task
  configuration: the path to append, or the \<^verbatim>\<open>else\<close> branch. A failing subscript,
  membership test or method call raises before either is reached.
\<close>

datatype destination = Path pyval | Unsupported

definition normalize_format :: "string \<Rightarrow> string" where
  "normalize_format l =
     (let file_format = remove_underscores l
      in if file_format = ''geotiff'' then ''tif''
         else if file_format = ''tfrecordimage'' then ''tfrecord''
         else file_format)"

definition resolve :: "(pyval \<Rightarrow> string) \<Rightarrow> pyval \<Rightarrow> exn + destination" where
  "resolve repr cfg =
     (case py_contains ''assetExportOptions'' cfg of
        Inl e \<Rightarrow> Inl e
      | Inr is_asset \<Rightarrow>
          if is_asset then
            (case py_path cfg [''assetExportOptions'', ''earthEngineDestination'', ''name''] of
               Inl e \<Rightarrow> Inl e
             | Inr name \<Rightarrow> Inr (Path name))
          else
            (case py_getitem cfg ''fileExportOptions'' of
               Inl e \<Rightarrow> Inl e
             | Inr feo \<Rightarrow>
                (case py_contains ''cloudStorageDestination'' feo of
                   Inl e \<Rightarrow> Inl e
                 | Inr is_cloud \<Rightarrow>
                     if is_cloud then
                       (case py_path cfg [''fileExportOptions'', ''fileFormat''] of
                          Inl e \<Rightarrow> Inl e
                        | Inr ff \<Rightarrow>
                           (case py_lower ff of
                              Inl e \<Rightarrow> Inl e
                            | Inr l \<Rightarrow>
                               (case py_path cfg [''fileExportOptions'',
                                        ''cloudStorageDestination'', ''filenamePrefix''] of
                                  Inl e \<Rightarrow> Inl e
                                | Inr pfx \<Rightarrow>
                                    Inr (Path (PyStr (py_str repr pfx @ ''.'' @
                                                      normalize_format l))))))
                     else Inr Unsupported)))"

text \<open>
  The \<^verbatim>\<open>for\<close> loop of \<^verbatim>\<open>get_export_destination\<close>. The manager is returned
  also when the loop raises: what was appended before stays appended.
\<close>

fun export_destinations ::
  "(pyval \<Rightarrow> string) \<Rightarrow> task list \<Rightarrow> tasks_manager \<Rightarrow> world
     \<Rightarrow> (exn + unit) \<times> tasks_manager \<times> world" where
  "export_destinations repr [] tm w = (Inr (), tm, w)"
| "export_destinations repr (t # ts) tm w =
     (case resolve repr (config t) of
        Inl e \<Rightarrow> (Inl e, tm, w)
      | Inr (Path p) \<Rightarrow> export_destinations repr ts (tm\<lparr>paths := paths tm @ [p]\<rparr>) w
      | Inr Unsupported \<Rightarrow>
          (let e = UnsupportedExportDestination (config t);
               w1 = w\<lparr>events := events w @ [Print e]\<rparr>;
               w2 = (case logger tm of
                       None \<Rightarrow> w1
                     | Some lg \<Rightarrow> w1\<lparr>events := events w1 @ [LogError e]\<rparr>)
           in (Inl (ValueError e), tm, w2)))"

text \<open>
  \<^verbatim>\<open>TasksManager.get_export_destination\<close>; \<open>targ\<close> is the optional argument
  \<^verbatim>\<open>tasks\<close>, which replaces the manager's tasks when it is a non-empty list.
\<close>

definition get_export_destination ::
  "(pyval \<Rightarrow> string) \<Rightarrow> tasks_manager \<Rightarrow> task list option \<Rightarrow> world
     \<Rightarrow> (exn + unit) \<times> tasks_manager \<times> world" where
  "get_export_destination repr tm targ w =
     (let tm1 = (case targ of
                   None \<Rightarrow> tm
                 | Some ts \<Rightarrow> if ts \<noteq> [] then tm\<lparr>tasks := ts\<rparr> else tm)
      in export_destinations repr (tasks tm1) tm1 w)"

section \<open>Submitting the exports\<close>

text \<open>
  The caller's \<^verbatim>\<open>export_options\<close> is a mutable dictionary that the function
  copies, so dictionaries live in a store: an address is an index into the list of
  dictionary objects, and an address beyond the list is an object that is no dictionary.
\<close>

type_synonym dict = "(string \<times> pyval) list"
type_synonym heap = "dict list"

definition heap_read :: "heap \<Rightarrow> nat \<Rightarrow> dict option" where
  "heap_read h a = (if a < length h then Some (h ! a) else None)"

definition heap_alloc :: "heap \<Rightarrow> dict \<Rightarrow> nat \<times> heap" where
  "heap_alloc h d = (length h, h @ [d])"

definition heap_write :: "heap \<Rightarrow> nat \<Rightarrow> dict \<Rightarrow> heap" where
  "heap_write h a d = (if a < length h then h[a := d] else h)"

text \<open>
  The client library: the answer of \<^verbatim>\<open>aggregate_array(property).getInfo()\<close> on the
  collection, the task that \<^verbatim>\<open>Export.image.toCloudStorage\<close> builds from the image,
  the description and the keyword arguments, and the task after \<^verbatim>\<open>task.start()\<close>.
  Each of them may raise. The image
  \<^verbatim>\<open>im_collection.filterMetadata(property, "equals", idx).first()\<close> is a lazy
  server-side expression.
\<close>

datatype image = FilterMetadataFirst string pyval

record ee_api =
  getInfo :: "string \<Rightarrow> exn + pyval list"
  toCloudStorage :: "image \<Rightarrow> pyval \<Rightarrow> dict \<Rightarrow> exn + task"
  start :: "task \<Rightarrow> exn + task"

text \<open>
  The two branches on \<^verbatim>\<open>"fileNamePrefix" not in _export_options\<close>, on the content
  of the copy. An assignment to a key keeps the key's place, a new key goes last.
\<close>

definition set_file_name_prefix :: "(pyval \<Rightarrow> string) \<Rightarrow> dict \<Rightarrow> pyval \<Rightarrow> dict" where
  "set_file_name_prefix repr d idx =
     (case map_of d ''fileNamePrefix'' of
        None \<Rightarrow> AList.update ''fileNamePrefix'' idx d
      | Some pfx \<Rightarrow>
          AList.update ''fileNamePrefix''
            (PyStr (py_str repr pfx @ ''/'' @ py_str repr idx)) d)"

text \<open>
  The call \<^verbatim>\<open>toCloudStorage(image=im, description=description, **_export_options)\<close>:
  a keyword given twice is a TypeError of the call itself.
\<close>

definition call_toCloudStorage :: "ee_api \<Rightarrow> image \<Rightarrow> pyval \<Rightarrow> dict \<Rightarrow> exn + task" where
  "call_toCloudStorage api im description kwargs =
     (if ''image'' \<in> set (map fst kwargs) \<or> ''description'' \<in> set (map fst kwargs)
      then Inl TypeError
      else toCloudStorage api im description kwargs)"

text \<open>The \<^verbatim>\<open>for idx in ...\<close> loop, with the list \<open>acc\<close> of the tasks so far.\<close>

fun export_loop ::
  "ee_api \<Rightarrow> (pyval \<Rightarrow> string) \<Rightarrow> pyval \<Rightarrow> nat \<Rightarrow> string \<Rightarrow> pyval list \<Rightarrow> task list
     \<Rightarrow> heap \<Rightarrow> world \<Rightarrow> (exn + task list) \<times> heap \<times> world" where
  "export_loop api repr description export_options property [] acc h w = (Inr acc, h, w)"
| "export_loop api repr description export_options property (idx # idxs) acc h w =
     (let im = FilterMetadataFirst property idx
      in case heap_read h export_options of
           None \<Rightarrow> (Inl AttributeError, h, w)
         | Some d \<Rightarrow>
            (case heap_alloc h d of
               (copy_addr, h1) \<Rightarrow>
                 (let h2 = heap_write h1 copy_addr (set_file_name_prefix repr d idx)
                  in case heap_read h2 copy_addr of
                       None \<Rightarrow> (Inl AttributeError, h2, w)
                     | Some kwargs \<Rightarrow>
                        (case call_toCloudStorage api im description kwargs of
                           Inl e \<Rightarrow> (Inl e, h2, w)
                         | Inr t \<Rightarrow>
                            (case start api t of
                               Inl e \<Rightarrow> (Inl e, h2, w)
                             | Inr t' \<Rightarrow>
                                 export_loop api repr description export_options property idxs
                                   (acc @ [t']) h2
                                   (w\<lparr>events := events w @ [Print (ExportingImage idx)]\<rparr>))))))"

text \<open>\<^verbatim>\<open>export_im_collection\<close>\<close>

definition export_im_collection ::
  "ee_api \<Rightarrow> (pyval \<Rightarrow> string) \<Rightarrow> pyval \<Rightarrow> nat \<Rightarrow> string \<Rightarrow> logger option
     \<Rightarrow> heap \<Rightarrow> world \<Rightarrow> (exn + tasks_manager) \<times> heap \<times> world" where
  "export_im_collection api repr description export_options property lg h w =
     (case getInfo api property of
        Inl e \<Rightarrow> (Inl e, h, w)
      | Inr idxs \<Rightarrow>
         (case export_loop api repr description export_options property idxs [] h w of
            (Inl e, h', w') \<Rightarrow> (Inl e, h', w')
          | (Inr ts, h', w') \<Rightarrow> (Inr (TasksManager ts lg), h', w')))"

section \<open>Passes of the loop that retry\<close>

text \<open>
  One pass of the \<^verbatim>\<open>while\<close> loop in which the body raises a transient error and
  the handler goes on to retry, which takes a logger, a counter below \<open>max_retries\<close> and
  a delay that is not negative: the counter and the world at the next loop head.
  \<open>None\<close>: the pass is of another kind. \<open>retry_passes n\<close> is \<open>n\<close> such passes in
  a row.
\<close>

definition retry_pass ::
  "tasks_manager \<Rightarrow> (nat \<Rightarrow> real) \<Rightarrow> int \<Rightarrow> real \<Rightarrow> nat \<Rightarrow> world \<Rightarrow> (nat \<times> world) option" where
  "retry_pass tm uniform max_retries backoff_factor retries w =
     (case any_active (tasks tm) (clock w) of
        (Inl e, c) \<Rightarrow> None
      | (Inr active_left, c) \<Rightarrow>
          if active_left then
            (case poll_try tm (w\<lparr>clock := c\<rparr>) of
               (Inr res, w1) \<Rightarrow> None
             | (Inl e, w1) \<Rightarrow>
                 if transient e then
                   (case poll_except tm uniform max_retries backoff_factor retries e w1 of
                      (Continue retries', w2) \<Rightarrow> Some (retries', w2)
                    | (Stop r, w2) \<Rightarrow> None)
                 else None)
          else None)"

fun retry_passes ::
  "nat \<Rightarrow> tasks_manager \<Rightarrow> (nat \<Rightarrow> real) \<Rightarrow> int \<Rightarrow> real \<Rightarrow> nat \<Rightarrow> world \<Rightarrow> (nat \<times> world) option" where
  "retry_passes 0 tm uniform max_retries backoff_factor retries w = Some (retries, w)"
| "retry_passes (Suc n) tm uniform max_retries backoff_factor retries w =
     (case retry_passes n tm uniform max_retries backoff_factor retries w of
        None \<Rightarrow> None
      | Some (retries', w') \<Rightarrow> retry_pass tm uniform max_retries backoff_factor retries' w')"

section \<open>Example inputs\<close>

definition gcs_config :: "string \<Rightarrow> string \<Rightarrow> pyval" where
  "gcs_config file_format filename_prefix =
     PyDict [(''fileExportOptions'',
       PyDict [(''fileFormat'', PyStr file_format),
               (''cloudStorageDestination'',
                  PyDict [(''bucket'', PyStr ''crop-identification''),
                          (''filenamePrefix'', PyStr filename_prefix)])])]"

definition asset_config :: "string \<Rightarrow> pyval" where
  "asset_config name =
     PyDict [(''assetExportOptions'',
       PyDict [(''earthEngineDestination'', PyDict [(''name'', PyStr name)])])]"

definition drive_config :: pyval where
  "drive_config =
     PyDict [(''fileExportOptions'',
       PyDict [(''fileFormat'', PyStr ''GEO_TIFF''),
               (''driveDestination'', PyDict [(''filenamePrefix'', PyStr ''img'')])])]"

text \<open>A task that has ended in the state named by its status.\<close>

definition ended_task :: "pyval \<Rightarrow> pyval \<Rightarrow> task" where
  "ended_task cfg st =
     \<lparr>task_id = PyStr ''T1'', task_type = EXPORT_IMAGE, config = cfg,
      active = (\<lambda>n. Inr False), status = (\<lambda>n. Inr st)\<rparr>"

text \<open>A task that is active and whose status cannot be fetched.\<close>

definition unreachable_task :: task where
  "unreachable_task =
     \<lparr>task_id = PyStr ''T2'', task_type = EXPORT_IMAGE, config = gcs_config ''GEO_TIFF'' ''img'',
      active = (\<lambda>n. Inr True), status = (\<lambda>n. Inl (ConnectionError ''reset''))\<rparr>"

text \<open>A map export: its options are under another key.\<close>

definition tile_config :: pyval where
  "tile_config =
     PyDict [(''tileOptions'', PyDict [(''maxZoom'', PyInt 12)]),
             (''tileExportOptions'',
                PyDict [(''cloudStorageDestination'', PyDict [(''bucket'', PyStr ''b'')])])]"

text \<open>A client library that answers two indices and never raises, and a store with two
  option dictionaries.\<close>

definition example_api :: ee_api where
  "example_api =
     \<lparr>getInfo = (\<lambda>p. if p = ''system:index'' then Inr [PyStr ''i0'', PyStr ''i1'']
                       else Inl (OtherException ''no such property'')),
      toCloudStorage = (\<lambda>im d kw.
         Inr \<lparr>task_id = PyNone, task_type = EXPORT_IMAGE, config = PyDict kw,
              active = (\<lambda>n. Inr False), status = (\<lambda>n. Inr (PyStr ''UNSUBMITTED''))\<rparr>),
      start = (\<lambda>t. Inr (t\<lparr>task_id := PyStr ''started''\<rparr>))\<rparr>"

definition example_heap :: heap where
  "example_heap =
     [[(''fileFormat'', PyStr ''GeoTIFF''), (''fileNamePrefix'', PyStr ''woolpert_example''),
       (''bucket'', PyStr ''crop-identification'')],
      [(''bucket'', PyStr ''crop-identification'')]]"

definition started_task :: "dict \<Rightarrow> task" where
  "started_task kw =
     \<lparr>task_id = PyStr ''started'', task_type = EXPORT_IMAGE, config = PyDict kw,
      active = (\<lambda>n. Inr False), status = (\<lambda>n. Inr (PyStr ''UNSUBMITTED''))\<rparr>"

text \<open>
  A task as the service reports it: the status is a mapping with the state inside. The
  task runs during the first pass of the loop and has completed afterwards.
\<close>

definition completing_task :: task where
  "completing_task =
     \<lparr>task_id = PyStr ''T4'', task_type = EXPORT_IMAGE, config = gcs_config ''GEO_TIFF'' ''img'',
      active = (\<lambda>n. Inr (n < 3)),
      status = (\<lambda>n. Inr (PyDict [(''state'',
                  PyStr (if n < 3 then ''RUNNING'' else ''COMPLETED''))]))\<rparr>"

definition world0 :: world where
  "world0 = \<lparr>clock = 0, events = []\<rparr>"

section \<open>Facts about the loop condition and the final check\<close>

lemma any_active_False_iff:
  "any_active ts c = (Inr False, c') \<longleftrightarrow>
     (c' = c + length ts \<and> (\<forall>i<length ts. active (ts ! i) (c + i) = Inr False))"
proof (induction ts arbitrary: c)
  case Nil
  then show ?case by auto
next
  case (Cons t ts)
  show ?case
    by (cases "active t c") (auto simp: Cons.IH All_less_Suc2)
qed

lemma all_completed_True_iff:
  "all_completed ts c = (Inr True, c') \<longleftrightarrow>
     (c' = c + length ts \<and> (\<forall>i<length ts. status (ts ! i) (c + i) = Inr COMPLETED))"
proof (induction ts arbitrary: c)
  case Nil
  then show ?case by auto
next
  case (Cons t ts)
  show ?case
    by (cases "status t c") (auto simp: Cons.IH All_less_Suc2)
qed

lemma poll_try_not_True: "poll_try tm w \<noteq> (Inr (Some True), w')"
  by (auto simp: poll_try_def Let_def sleep_def split: prod.splits sum.splits option.splits)

lemma poll_except_not_True: "poll_except tm u mr bf r e w \<noteq> (Stop (Inr True), w')"
  by (auto simp: poll_except_def Let_def sleep_def
      split: prod.splits sum.splits option.splits if_splits)

lemma poll_iteration_not_True: "poll_iteration tm u mr bf r w \<noteq> (Stop (Inr True), w')"
  by (auto simp: poll_iteration_def poll_try_not_True poll_except_not_True
      split: prod.splits sum.splits option.splits if_splits)

lemma poll_loop_True:
  "poll_loop fuel tm u mr bf r w = Some (Inr True, tm', w') \<Longrightarrow>
     tm' = tm \<and> 2 * length (tasks tm) \<le> clock w' \<and>
     (\<forall>i<length (tasks tm).
        active (tasks tm ! i) (clock w' - 2 * length (tasks tm) + i) = Inr False) \<and>
     (\<forall>i<length (tasks tm).
        status (tasks tm ! i) (clock w' - length (tasks tm) + i) = Inr COMPLETED)"
proof (induction fuel arbitrary: r w)
  case 0
  then show ?case by simp
next
  case (Suc fuel)
  obtain a c where ac: "any_active (tasks tm) (clock w) = (a, c)"
    by (cases "any_active (tasks tm) (clock w)")
  show ?case
  proof (cases a)
    case (Inl e)
    with Suc.prems ac show ?thesis by simp
  next
    case (Inr b)
    show ?thesis
    proof (cases b)
      case True
      obtain k w1 where it: "poll_iteration tm u mr bf r (w\<lparr>clock := c\<rparr>) = (k, w1)"
        by (cases "poll_iteration tm u mr bf r (w\<lparr>clock := c\<rparr>)")
      show ?thesis
      proof (cases k)
        case (Continue r')
        with Suc.prems ac Inr True it
        have "poll_loop fuel tm u mr bf r' w1 = Some (Inr True, tm', w')"
          by simp
        then show ?thesis by (rule Suc.IH)
      next
        case (Stop res)
        with Suc.prems ac Inr True it have "res = Inr True" by simp
        with it Stop poll_iteration_not_True show ?thesis by blast
      qed
    next
      case False
      obtain res c' where fin: "all_completed (tasks tm) c = (res, c')"
        by (cases "all_completed (tasks tm) c")
      with Suc.prems ac Inr False
      have *: "res = Inr True" "tm' = tm" "w' = w\<lparr>clock := c'\<rparr>"
        by simp_all
      with fin have "c' = c + length (tasks tm)"
        and "\<forall>i<length (tasks tm). status (tasks tm ! i) (c + i) = Inr COMPLETED"
        by (simp_all add: all_completed_True_iff)
      moreover from ac Inr False have "c = clock w + length (tasks tm)"
        and "\<forall>i<length (tasks tm). active (tasks tm ! i) (clock w + i) = Inr False"
        by (simp_all add: any_active_False_iff)
      ultimately show ?thesis using * by simp
    qed
  qed
qed

lemma poll_loop_exit:
  assumes "any_active (tasks tm) (clock w) = (Inr False, c)"
  shows "poll_loop (Suc fuel) tm u mr bf r w
           = Some (fst (all_completed (tasks tm) c), tm,
                   w\<lparr>clock := snd (all_completed (tasks tm) c)\<rparr>)"
  using assms by (simp split: prod.splits)

lemma all_completed_fst_True:
  "fst (all_completed ts c) = Inr True \<longleftrightarrow>
     (\<forall>i<length ts. status (ts ! i) (c + i) = Inr COMPLETED)"
  using all_completed_True_iff [of ts c "snd (all_completed ts c)"]
    all_completed_True_iff [of ts c "c + length ts"]
  by (metis fst_conv prod.collapse)

lemma poll_loop_manager:
  "poll_loop fuel tm u mr bf r w = Some (res, tm', w') \<Longrightarrow> tm' = tm"
proof (induction fuel arbitrary: r w)
  case 0
  then show ?case by simp
next
  case (Suc fuel)
  then show ?case
    by (auto split: prod.splits sum.splits if_splits control.splits)
qed

section \<open>Facts about the handler and the passes that retry\<close>

lemma retry_pass_loop:
  "retry_pass tm u mr bf r w = Some (r', w') \<Longrightarrow>
     poll_loop (Suc fuel) tm u mr bf r w = poll_loop fuel tm u mr bf r' w'"
  by (auto simp: retry_pass_def poll_iteration_def
      split: prod.splits sum.splits if_splits control.splits)

lemma retry_passes_loop:
  "retry_passes n tm u mr bf r w = Some (r', w') \<Longrightarrow>
     poll_loop (n + fuel) tm u mr bf r w = poll_loop fuel tm u mr bf r' w'"
proof (induction n arbitrary: r' w' fuel)
  case 0
  then show ?case by simp
next
  case (Suc n)
  from Suc.prems obtain r1 w1 where
    a: "retry_passes n tm u mr bf r w = Some (r1, w1)" and
    b: "retry_pass tm u mr bf r1 w1 = Some (r', w')"
    by (auto split: option.splits)
  have "poll_loop (n + Suc fuel) tm u mr bf r w = poll_loop (Suc fuel) tm u mr bf r1 w1"
    by (rule Suc.IH [OF a])
  also have "\<dots> = poll_loop fuel tm u mr bf r' w'"
    by (rule retry_pass_loop [OF b])
  finally show ?case by simp
qed

lemma poll_except_Continue:
  "poll_except tm u mr bf r e w = (Continue r', w') \<Longrightarrow>
     r' = Suc r \<and> int r' \<le> mr \<and> logger tm \<noteq> None \<and> clock w' = Suc (clock w) \<and>
     0 \<le> bf ^ r' + u (clock w) \<and>
     events w' = events w @ [LogWarning (PollingInterrupted (exn_str e)),
                             LogInfo (RetryingIn (bf ^ r' + u (clock w))),
                             Sleep (bf ^ r' + u (clock w))]"
  by (auto simp: poll_except_def Let_def sleep_def split: option.splits if_splits)

lemma retry_pass_Some:
  "retry_pass tm u mr bf r w = Some (r', w') \<Longrightarrow>
     r' = Suc r \<and> int r' \<le> mr \<and> 0 < clock w' \<and>
     last (events w') = Sleep (bf ^ r' + u (clock w' - 1))"
  by (auto simp: retry_pass_def split: prod.splits sum.splits if_splits control.splits
      dest!: poll_except_Continue)

lemma retry_passes_counter:
  "retry_passes n tm u mr bf r w = Some (r', w') \<Longrightarrow> r' = r + n"
proof (induction n arbitrary: r' w')
  case 0
  then show ?case by simp
next
  case (Suc n)
  then show ?case by (auto split: option.splits dest!: retry_pass_Some)
qed

lemma retry_passes_last:
  assumes "retry_passes (Suc n) tm u mr bf r w = Some (r', w')"
  shows "r' = r + Suc n \<and> int r' \<le> mr \<and> 0 < clock w' \<and>
         last (events w') = Sleep (bf ^ r' + u (clock w' - 1))"
proof -
  from assms obtain r1 w1 where
    a: "retry_passes n tm u mr bf r w = Some (r1, w1)" and
    b: "retry_pass tm u mr bf r1 w1 = Some (r', w')"
    by (auto split: option.splits)
  from a have "r1 = r + n" by (rule retry_passes_counter)
  with retry_pass_Some [OF b] show ?thesis by simp
qed

lemma poll_iteration_reset:
  "fst (poll_try tm w) = Inr None \<Longrightarrow>
     poll_iteration tm u mr bf r w = (Continue 0, snd (poll_try tm w))"
  by (auto simp: poll_iteration_def split: prod.splits)

lemma poll_except_without_logger:
  "logger tm = None \<Longrightarrow> poll_except tm u mr bf r e w = (Stop (Inl AttributeError), w)"
  by (simp add: poll_except_def)

lemma poll_except_exhausted:
  "logger tm = Some lg \<Longrightarrow> \<not> int r < mr \<Longrightarrow>
     poll_except tm u mr bf r e w
       = (Stop (Inr False),
          w\<lparr>events := events w @ [LogWarning (PollingInterrupted (exn_str e)),
                                   LogError MaxRetriesReached]\<rparr>)"
  by (simp add: poll_except_def)

lemma poll_except_retry:
  "logger tm = Some lg \<Longrightarrow> int r < mr \<Longrightarrow> 0 \<le> bf ^ Suc r + u (clock w) \<Longrightarrow>
     poll_except tm u mr bf r e w
       = (Continue (Suc r),
          w\<lparr>clock := Suc (clock w),
            events := events w @ [LogWarning (PollingInterrupted (exn_str e)),
                                   LogInfo (RetryingIn (bf ^ Suc r + u (clock w))),
                                   Sleep (bf ^ Suc r + u (clock w))]\<rparr>)"
  by (simp add: poll_except_def sleep_def Let_def)

lemma poll_retries_exhausted:
  assumes "retry_passes n tm u mr bf 0 w = Some (r, w1)"
    and "mr \<le> int n"
    and "any_active (tasks tm) (clock w1) = (Inr True, c)"
    and "poll_try tm (w1\<lparr>clock := c\<rparr>) = (Inl e, w2)"
    and "transient e"
    and "logger tm = Some lg"
  shows "poll (n + Suc fuel) tm u mr bf w
           = Some (Inr False, tm,
                   w2\<lparr>events := events w2 @ [LogWarning (PollingInterrupted (exn_str e)),
                                             LogError MaxRetriesReached]\<rparr>)"
proof -
  from assms(1) have r: "r = n" using retry_passes_counter by fastforce
  have "poll (n + Suc fuel) tm u mr bf w = poll_loop (Suc fuel) tm u mr bf r w1"
    unfolding poll_def by (rule retry_passes_loop [OF assms(1)])
  also have "\<dots> = Some (Inr False, tm,
                   w2\<lparr>events := events w2 @ [LogWarning (PollingInterrupted (exn_str e)),
                                             LogError MaxRetriesReached]\<rparr>)"
    using assms(2-6) r by (simp add: poll_iteration_def poll_except_exhausted)
  finally show ?thesis .
qed

section \<open>Facts about the export paths\<close>


lemma export_destinations_append:
  "map (\<lambda>t. resolve repr (config t)) ts = map (\<lambda>p. Inr (Path p)) ps \<Longrightarrow>
     export_destinations repr (ts @ rest) tm w
       = export_destinations repr rest (tm\<lparr>paths := paths tm @ ps\<rparr>) w"
proof (induction ts arbitrary: ps tm)
  case Nil
  then show ?case by simp
next
  case (Cons t ts)
  from Cons.prems obtain p ps' where ps: "ps = p # ps'"
    and p: "resolve repr (config t) = Inr (Path p)"
    and rest: "map (\<lambda>t. resolve repr (config t)) ts = map (\<lambda>p. Inr (Path p)) ps'"
    by (cases ps) auto
  show ?case
    using Cons.IH [OF rest, of "tm\<lparr>paths := paths tm @ [p]\<rparr>"] p ps by simp
qed

lemma export_destinations_extends:
  "export_destinations repr ts tm w = (res, tm', w') \<Longrightarrow>
     \<exists>new. tm' = tm\<lparr>paths := paths tm @ new\<rparr> \<and> length new \<le> length ts"
proof (induction ts arbitrary: tm)
  case Nil
  then show ?case by (auto intro!: exI [of _ "[]"])
next
  case (Cons t ts)
  show ?case
  proof (cases "resolve repr (config t)")
    case (Inl e)
    with Cons.prems show ?thesis by (auto intro!: exI [of _ "[]"])
  next
    case (Inr d)
    show ?thesis
    proof (cases d)
      case (Path p)
      with Inr Cons.prems
      have "export_destinations repr ts (tm\<lparr>paths := paths tm @ [p]\<rparr>) w = (res, tm', w')"
        by simp
      from Cons.IH [OF this] obtain new where
        "tm' = tm\<lparr>paths := paths tm @ [p]\<rparr>\<lparr>paths := paths (tm\<lparr>paths := paths tm @ [p]\<rparr>) @ new\<rparr>"
        and "length new \<le> length ts" by blast
      then have "tm' = tm\<lparr>paths := paths tm @ (p # new)\<rparr> \<and> length (p # new) \<le> length (t # ts)"
        by simp
      then show ?thesis by blast
    next
      case Unsupported
      with Inr Cons.prems show ?thesis by (auto simp: Let_def intro!: exI [of _ "[]"])
    qed
  qed
qed

lemma export_destinations_success:
  "export_destinations repr ts tm w = (Inr (), tm', w') \<Longrightarrow>
     \<exists>ps. map (\<lambda>t. resolve repr (config t)) ts = map (\<lambda>p. Inr (Path p)) ps
        \<and> tm' = tm\<lparr>paths := paths tm @ ps\<rparr> \<and> w' = w"
proof (induction ts arbitrary: tm)
  case Nil
  then show ?case by simp
next
  case (Cons t ts)
  show ?case
  proof (cases "resolve repr (config t)")
    case (Inl e)
    with Cons.prems show ?thesis by simp
  next
    case (Inr d)
    show ?thesis
    proof (cases d)
      case (Path p)
      with Inr Cons.prems
      have "export_destinations repr ts (tm\<lparr>paths := paths tm @ [p]\<rparr>) w = (Inr (), tm', w')"
        by simp
      from Cons.IH [OF this] obtain ps where
        a: "map (\<lambda>t. resolve repr (config t)) ts = map (\<lambda>p. Inr (Path p)) ps"
        and b: "tm' = tm\<lparr>paths := paths tm @ [p]\<rparr>\<lparr>paths := paths (tm\<lparr>paths := paths tm @ [p]\<rparr>) @ ps\<rparr>"
        and c: "w' = w" by blast
      from a Inr Path
      have "map (\<lambda>t. resolve repr (config t)) (t # ts) = map (\<lambda>p. Inr (Path p)) (p # ps)"
        by simp
      moreover from b have "tm' = tm\<lparr>paths := paths tm @ (p # ps)\<rparr>" by simp
      ultimately show ?thesis using c by blast
    next
      case Unsupported
      with Inr Cons.prems show ?thesis by (auto simp: Let_def)
    qed
  qed
qed

lemma export_destinations_unsupported:
  "resolve repr (config t) = Inr Unsupported \<Longrightarrow>
     export_destinations repr (t # ts) tm w
       = (Inl (ValueError (UnsupportedExportDestination (config t))), tm,
          w\<lparr>events := events w @ Print (UnsupportedExportDestination (config t)) #
               (case logger tm of None \<Rightarrow> []
                | Some lg \<Rightarrow> [LogError (UnsupportedExportDestination (config t))])\<rparr>)"
  by (simp add: Let_def split: option.splits)

lemma resolve_unsupported_iff:
  "resolve repr cfg = Inr Unsupported \<longleftrightarrow>
     py_contains ''assetExportOptions'' cfg = Inr False \<and>
     (\<exists>feo. py_getitem cfg ''fileExportOptions'' = Inr feo \<and>
            py_contains ''cloudStorageDestination'' feo = Inr False)"
  by (auto simp: resolve_def split: sum.splits if_splits)

lemma normalized_GeoTIFF: "remove_underscores (map ascii_lower ''GeoTIFF'') = ''geotiff''"
  by code_simp

lemma normalized_TFRecordImage:
  "remove_underscores (map ascii_lower ''TFRecordImage'') = ''tfrecordimage''"
  by code_simp

lemma resolve_asset:
  "py_contains ''assetExportOptions'' cfg = Inr True \<Longrightarrow>
   py_path cfg [''assetExportOptions'', ''earthEngineDestination'', ''name''] = Inr name \<Longrightarrow>
   resolve repr cfg = Inr (Path name)"
  by (simp add: resolve_def)

lemma resolve_cloud:
  assumes "py_contains ''assetExportOptions'' cfg = Inr False"
    and "py_getitem cfg ''fileExportOptions'' = Inr feo"
    and "py_contains ''cloudStorageDestination'' feo = Inr True"
    and "py_getitem feo ''fileFormat'' = Inr (PyStr file_format)"
    and "py_path feo [''cloudStorageDestination'', ''filenamePrefix''] = Inr pfx"
  shows "resolve repr cfg
           = Inr (Path (PyStr (py_str repr pfx @ ''.'' @
                   normalize_format (map ascii_lower file_format))))"
  using assms by (simp add: resolve_def split: sum.splits)

lemma resolve_asset_example:
  "resolve repr (asset_config ''users/me/img'') = Inr (Path (PyStr ''users/me/img''))"
  by (simp add: resolve_def asset_config_def)

lemma resolve_geotiff_example:
  "resolve (\<lambda>v. ''?'') (gcs_config ''GEO_TIFF'' ''out/a'') = Inr (Path (PyStr ''out/a.tif''))"
  by code_simp

lemma resolve_tfrecord_example:
  "resolve (\<lambda>v. ''?'') (gcs_config ''TFRecord_Image'' ''out/b'') = Inr (Path (PyStr ''out/b.tfrecord''))"
  by code_simp

lemma resolve_drive_example: "resolve repr drive_config = Inr Unsupported"
  by (simp add: resolve_def drive_config_def)

lemma normalized_GEO_TIFF:
  "remove_underscores (map ascii_lower ''GEO_TIFF'') = remove_underscores (map ascii_lower ''GeoTIFF'')"
  by code_simp

lemma normalized_TFRecord_Image:
  "remove_underscores (map ascii_lower ''TFRecord_Image'')
     = remove_underscores (map ascii_lower ''TFRecordImage'')"
  by code_simp

section \<open>Facts about the export loop and the store\<close>


lemma heap_read_append: "a < length h \<Longrightarrow> heap_read (h @ ext) a = heap_read h a"
  by (simp add: heap_read_def nth_append)

lemma heap_copy_step:
  "heap_write (snd (heap_alloc h d)) (fst (heap_alloc h d)) d' = h @ [d']"
  by (simp add: heap_alloc_def heap_write_def list_update_append)

lemma heap_read_new: "heap_read (h @ [d']) (length h) = Some d'"
  by (simp add: heap_read_def)

lemma export_loop_unfold:
  "export_loop api repr description eo property (idx # idxs) acc h w =
     (case heap_read h eo of
        None \<Rightarrow> (Inl AttributeError, h, w)
      | Some d \<Rightarrow>
         (case call_toCloudStorage api (FilterMetadataFirst property idx) description
                 (set_file_name_prefix repr d idx) of
            Inl e \<Rightarrow> (Inl e, h @ [set_file_name_prefix repr d idx], w)
          | Inr t \<Rightarrow>
             (case start api t of
                Inl e \<Rightarrow> (Inl e, h @ [set_file_name_prefix repr d idx], w)
              | Inr t' \<Rightarrow>
                  export_loop api repr description eo property idxs (acc @ [t'])
                    (h @ [set_file_name_prefix repr d idx])
                    (w\<lparr>events := events w @ [Print (ExportingImage idx)]\<rparr>))))"
  by (auto simp: Let_def heap_alloc_def heap_write_def heap_read_def list_update_append split: option.splits sum.splits)

declare export_loop.simps(2) [simp del]

lemma export_loop_heap:
  "export_loop api repr description eo property idxs acc h w = (res, h', w') \<Longrightarrow>
     \<exists>ext. h' = h @ ext"
proof (induction idxs arbitrary: acc h w)
  case Nil
  then show ?case by simp
next
  case (Cons idx idxs)
  show ?case
  proof (cases "heap_read h eo")
    case None
    with Cons.prems show ?thesis by (simp add: export_loop_unfold)
  next
    case (Some d)
    let ?h2 = "h @ [set_file_name_prefix repr d idx]"
    show ?thesis
    proof (cases "call_toCloudStorage api (FilterMetadataFirst property idx) description
                 (set_file_name_prefix repr d idx)")
      case (Inl e)
      with Some Cons.prems show ?thesis by (auto simp: export_loop_unfold)
    next
      case (Inr t)
      show ?thesis
      proof (cases "start api t")
        case (Inl e)
        with Some Inr Cons.prems show ?thesis by (auto simp: export_loop_unfold)
      next
        case t': (Inr t')
        with Some Inr Cons.prems
        have "export_loop api repr description eo property idxs (acc @ [t']) ?h2
                (w\<lparr>events := events w @ [Print (ExportingImage idx)]\<rparr>) = (res, h', w')"
          by (simp add: export_loop_unfold)
        from Cons.IH [OF this] obtain ext where "h' = ?h2 @ ext" by blast
        then have "h' = h @ (set_file_name_prefix repr d idx # ext)" by simp
        then show ?thesis by blast
      qed
    qed
  qed
qed

lemma export_loop_keeps:
  assumes "export_loop api repr description eo property idxs acc h w = (res, h', w')"
  shows "take (length h) h' = h"
  using export_loop_heap [OF assms] by auto

lemma heap_read_kept:
  "take (length h) h' = h \<Longrightarrow> a < length h \<Longrightarrow> heap_read h' a = heap_read h a"
  by (metis append_take_drop_id heap_read_append)

lemma export_loop_no_dict:
  "heap_read h eo = None \<Longrightarrow>
     fst (snd (export_loop api repr description eo property idxs acc h w)) = h"
  by (cases idxs) (simp_all add: export_loop_unfold)

lemma export_loop_options_kept:
  "heap_read (fst (snd (export_loop api repr description eo property idxs acc h w))) eo
     = heap_read h eo"
proof (cases "eo < length h")
  case True
  obtain res h' w' where r: "export_loop api repr description eo property idxs acc h w = (res, h', w')"
    by (cases "export_loop api repr description eo property idxs acc h w") auto
  from export_loop_keeps [OF r] True have "heap_read h' eo = heap_read h eo"
    by (rule heap_read_kept)
  with r show ?thesis by simp
next
  case False
  then have "heap_read h eo = None" by (simp add: heap_read_def)
  then show ?thesis by (simp add: export_loop_no_dict)
qed


lemma example_run:
  "export_im_collection example_api (\<lambda>v. ''?'') (PyStr ''test_s2'') 0 ''system:index'' None
      example_heap world0
   = (Inr (TasksManager
        [started_task [(''fileFormat'', PyStr ''GeoTIFF''),
                       (''fileNamePrefix'', PyStr ''woolpert_example/i0''),
                       (''bucket'', PyStr ''crop-identification'')],
         started_task [(''fileFormat'', PyStr ''GeoTIFF''),
                       (''fileNamePrefix'', PyStr ''woolpert_example/i1''),
                       (''bucket'', PyStr ''crop-identification'')]] None),
      example_heap @
        [[(''fileFormat'', PyStr ''GeoTIFF''), (''fileNamePrefix'', PyStr ''woolpert_example/i0''),
          (''bucket'', PyStr ''crop-identification'')],
         [(''fileFormat'', PyStr ''GeoTIFF''), (''fileNamePrefix'', PyStr ''woolpert_example/i1''),
          (''bucket'', PyStr ''crop-identification'')]],
      world0\<lparr>events := [Print (ExportingImage (PyStr ''i0'')),
                          Print (ExportingImage (PyStr ''i1''))]\<rparr>)"
  by (simp add: export_im_collection_def example_api_def example_heap_def world0_def
      export_loop_unfold heap_read_def set_file_name_prefix_def call_toCloudStorage_def
      started_task_def TasksManager_def)

lemma example_run_new_key:
  "export_im_collection example_api (\<lambda>v. ''?'') (PyStr ''test_s2'') 1 ''system:index'' None
      example_heap world0
   = (Inr (TasksManager
        [started_task [(''bucket'', PyStr ''crop-identification''), (''fileNamePrefix'', PyStr ''i0'')],
         started_task [(''bucket'', PyStr ''crop-identification''), (''fileNamePrefix'', PyStr ''i1'')]]
        None),
      example_heap @
        [[(''bucket'', PyStr ''crop-identification''), (''fileNamePrefix'', PyStr ''i0'')],
         [(''bucket'', PyStr ''crop-identification''), (''fileNamePrefix'', PyStr ''i1'')]],
      world0\<lparr>events := [Print (ExportingImage (PyStr ''i0'')),
                          Print (ExportingImage (PyStr ''i1''))]\<rparr>)"
  by (simp add: export_im_collection_def example_api_def example_heap_def world0_def
      export_loop_unfold heap_read_def set_file_name_prefix_def call_toCloudStorage_def
      started_task_def TasksManager_def)

section \<open>Facts about the shape of a status\<close>

lemma poll_ended_mapping_status:
  "poll 1 (TasksManager [ended_task cfg (PyDict [(''state'', PyStr ''COMPLETED'')])] lg)
       u mr bf world0
     = Some (Inr False,
             TasksManager [ended_task cfg (PyDict [(''state'', PyStr ''COMPLETED'')])] lg,
             world0\<lparr>clock := 2\<rparr>)"
  by (simp add: poll_def TasksManager_def ended_task_def world0_def COMPLETED_def)

lemma poll_never_True_without_string_status:
  assumes "tasks tm \<noteq> []"
    and "\<forall>n. status (hd (tasks tm)) n \<noteq> Inr COMPLETED"
  shows "poll fuel tm u mr bf w \<noteq> Some (Inr True, tm', w')"
proof
  assume "poll fuel tm u mr bf w = Some (Inr True, tm', w')"
  then have "poll_loop fuel tm u mr bf 0 w = Some (Inr True, tm', w')"
    by (simp add: poll_def)
  from poll_loop_True [OF this] assms(1)
  have "status (tasks tm ! 0) (clock w' - length (tasks tm) + 0) = Inr COMPLETED"
    by blast
  with assms show False by (simp add: hd_conv_nth)
qed

lemma poll_string_status_raises:
  "poll 1 (TasksManager [unreachable_task\<lparr>status := (\<lambda>n. Inr (PyStr ''RUNNING''))\<rparr>] lg)
       u mr bf world0
     = Some (Inl TypeError,
             TasksManager [unreachable_task\<lparr>status := (\<lambda>n. Inr (PyStr ''RUNNING''))\<rparr>] lg,
             world0\<lparr>clock := 2\<rparr>)"
  by (simp add: poll_def TasksManager_def unreachable_task_def world0_def
      poll_iteration_def poll_try_def)

lemma poll_with_logger_sleeps:
  "poll 1 (TasksManager [unreachable_task] (Some ''log'')) (\<lambda>n. 1 / 2) 5 2 world0 = None
   \<and> retry_passes (Suc 0) (TasksManager [unreachable_task] (Some ''log'')) (\<lambda>n. 1 / 2) 5 2 0 world0
     = Some (1, \<lparr>clock = 3, events =
         [LogWarning (PollingInterrupted ''reset''), LogInfo (RetryingIn (5 / 2)),
          Sleep (5 / 2)]\<rparr>)"
  by (simp add: poll_def retry_pass_def TasksManager_def unreachable_task_def world0_def
      poll_iteration_def poll_try_def poll_except_def sleep_def Let_def)

section \<open>Polling an empty task list\<close>

text \<open>
  C8. With an empty task list, poll returns True in its first pass through the loop
  condition, for every \<open>max_retries\<close> and \<open>backoff_factor\<close>: no call to the outside
  is made (the clock stands still), and nothing is slept, printed or logged (the event
  list is unchanged).
\<close>

theorem poll_empty_tasks:
  "poll (Suc fuel) (tm\<lparr>tasks := []\<rparr>) uniform max_retries backoff_factor w
     = Some (Inr True, tm\<lparr>tasks := []\<rparr>, w)"
  by (simp add: poll_def)

theorem poll_empty_tasks_witness:
  "poll (Suc 0) ((TasksManager [] None)\<lparr>tasks := []\<rparr>) (\<lambda>n. 0) 5 2 \<lparr>clock = 0, events = []\<rparr>
     = Some (Inr True, TasksManager [] None, \<lparr>clock = 0, events = []\<rparr>)"
  using poll_empty_tasks [of 0 "TasksManager [] None" "\<lambda>n. 0" 5 2 "\<lparr>clock = 0, events = []\<rparr>"]
  by (simp add: TasksManager_def)

section \<open>What poll returns\<close>

text \<open>
  C1. The claim says that poll returns True if and only if every task reports the COMPLETED
  state. The loop body reads the state of a task as \<^verbatim>\<open>t.status()['state']\<close>: a status
  is a mapping with the state inside. The test for a failed task and the final check
  compare \<^verbatim>\<open>task.status()\<close> itself with the string, and a mapping never equals a
  string. Here one export task runs during the first pass of the loop and reports
  \<^verbatim>\<open>{'state': 'COMPLETED'}\<close> from then on: poll returns False. On a non-empty task
  list poll returns True only when the status of the first task is the bare string
  (\<open>poll_never_True_without_string_status\<close>, from \<open>poll_loop_True\<close>), and an active
  export task with such a status makes the loop body raise TypeError
  (\<open>poll_string_status_raises\<close>).
\<close>

theorem poll_mapping_status_returns_false:
  "poll 2 (TasksManager [completing_task] (Some ''log'')) (\<lambda>n. 0) 5 2 world0
     = Some (Inr False, TasksManager [completing_task] (Some ''log''),
             \<lparr>clock = 5, events = [Print (RunningExports 1 1), Sleep 10]\<rparr>)"
  by (simp add: poll_def numeral_2_eq_2 TasksManager_def completing_task_def world0_def
      poll_iteration_def poll_try_def sleep_def Let_def FAILED_def COMPLETED_def)

section \<open>The retry budget\<close>

text \<open>
  C3. The claim says that poll returns False, and raises no exception, when a transient
  error arrives with the retry counter at \<open>max_retries\<close>. A manager built without a
  logger (the default of the constructor and of \<^verbatim>\<open>export_im_collection\<close>) does not:
  the handler's first statement is \<^verbatim>\<open>self.logger.warning(...)\<close>, so poll raises
  AttributeError. Here \<open>max_retries = 0\<close>, the task is active and its status call
  raises ConnectionError. With a logger the same run returns False
  (\<open>poll_retries_exhausted\<close>).
\<close>

theorem poll_without_logger_raises:
  "poll 1 (TasksManager [unreachable_task] None) (\<lambda>n. 0) 0 2 world0
     = Some (Inl AttributeError, TasksManager [unreachable_task] None, world0\<lparr>clock := 2\<rparr>)"
  by (simp add: poll_def TasksManager_def unreachable_task_def world0_def poll_iteration_def
      poll_try_def poll_except_def)

section \<open>The backoff delay\<close>

text \<open>
  C4. The claim says that on the \<open>n\<close>-th transient error in a row, for \<open>n\<close> from 1 to
  \<open>max_retries\<close>, poll sleeps \<^verbatim>\<open>backoff_factor ** n\<close> plus a jitter. A manager built
  without a logger never sleeps for a retry: at the first transient error, with the default
  budget of 5 retries untouched, the handler raises AttributeError at
  \<^verbatim>\<open>self.logger.warning(...)\<close> before the delay is computed, and poll ends with no
  event at all. This is the defect of C3. With a logger the same run sleeps 2 plus the
  jitter and goes on (\<open>poll_with_logger_sleeps\<close>, \<open>poll_except_retry\<close>,
  \<open>retry_passes_last\<close>; these read the delay in real arithmetic).
\<close>

theorem poll_without_logger_never_sleeps:
  "poll 1 (TasksManager [unreachable_task] None) (\<lambda>n. 1 / 2) 5 2 world0
     = Some (Inl AttributeError, TasksManager [unreachable_task] None,
             \<lparr>clock = 2, events = []\<rparr>)"
  by (simp add: poll_def TasksManager_def unreachable_task_def world0_def poll_iteration_def
      poll_try_def poll_except_def)

section \<open>The path of a task\<close>

text \<open>
  C2. What the loop body of \<^verbatim>\<open>get_export_destination\<close> appends for a task \<open>t\<close>.
  If \<^verbatim>\<open>"assetExportOptions" in task.config\<close> holds, it appends
  \<^verbatim>\<open>config["assetExportOptions"]["earthEngineDestination"]["name"]\<close> and goes on
  with the other tasks. Otherwise, if \<^verbatim>\<open>config["fileExportOptions"]\<close> contains
  \<^verbatim>\<open>"cloudStorageDestination"\<close>, with the format string \<open>file_format\<close> and the
  filename prefix \<open>pfx\<close>: when the lowercased format without underscores is that of
  \<^verbatim>\<open>GeoTIFF\<close> it appends the prefix followed by \<^verbatim>\<open>.tif\<close>, and when it is that
  of \<^verbatim>\<open>TFRecordImage\<close> it appends the prefix followed by \<^verbatim>\<open>.tfrecord\<close>.
\<close>

theorem export_destination_paths:
  "(py_contains ''assetExportOptions'' (config t) = Inr True \<and>
    py_path (config t) [''assetExportOptions'', ''earthEngineDestination'', ''name''] = Inr name
    \<longrightarrow> export_destinations repr (t # ts) tm w
          = export_destinations repr ts (tm\<lparr>paths := paths tm @ [name]\<rparr>) w)
   \<and> (py_contains ''assetExportOptions'' (config t) = Inr False \<and>
       py_getitem (config t) ''fileExportOptions'' = Inr feo \<and>
       py_contains ''cloudStorageDestination'' feo = Inr True \<and>
       py_getitem feo ''fileFormat'' = Inr (PyStr file_format) \<and>
       py_path feo [''cloudStorageDestination'', ''filenamePrefix''] = Inr pfx
       \<longrightarrow>
         (remove_underscores (map ascii_lower file_format)
            = remove_underscores (map ascii_lower ''GeoTIFF'')
          \<longrightarrow> export_destinations repr (t # ts) tm w
                = export_destinations repr ts
                    (tm\<lparr>paths := paths tm @ [PyStr (py_str repr pfx @ ''.tif'')]\<rparr>) w)
       \<and> (remove_underscores (map ascii_lower file_format)
            = remove_underscores (map ascii_lower ''TFRecordImage'')
          \<longrightarrow> export_destinations repr (t # ts) tm w
                = export_destinations repr ts
                    (tm\<lparr>paths := paths tm @ [PyStr (py_str repr pfx @ ''.tfrecord'')]\<rparr>) w))"
proof (intro conjI impI)
  assume "py_contains ''assetExportOptions'' (config t) = Inr True \<and>
    py_path (config t) [''assetExportOptions'', ''earthEngineDestination'', ''name''] = Inr name"
  then have "resolve repr (config t) = Inr (Path name)"
    by (simp add: resolve_asset)
  then show "export_destinations repr (t # ts) tm w
          = export_destinations repr ts (tm\<lparr>paths := paths tm @ [name]\<rparr>) w"
    by simp
next
  assume h: "py_contains ''assetExportOptions'' (config t) = Inr False \<and>
       py_getitem (config t) ''fileExportOptions'' = Inr feo \<and>
       py_contains ''cloudStorageDestination'' feo = Inr True \<and>
       py_getitem feo ''fileFormat'' = Inr (PyStr file_format) \<and>
       py_path feo [''cloudStorageDestination'', ''filenamePrefix''] = Inr pfx"
  assume "remove_underscores (map ascii_lower file_format)
            = remove_underscores (map ascii_lower ''GeoTIFF'')"
  then have "remove_underscores (map ascii_lower file_format) = ''geotiff''"
    by (simp only: normalized_GeoTIFF)
  then have "normalize_format (map ascii_lower file_format) = ''tif''"
    by (simp add: normalize_format_def)
  with h have "resolve repr (config t) = Inr (Path (PyStr (py_str repr pfx @ ''.tif'')))"
    by (simp add: resolve_cloud)
  then show "export_destinations repr (t # ts) tm w
                = export_destinations repr ts
                    (tm\<lparr>paths := paths tm @ [PyStr (py_str repr pfx @ ''.tif'')]\<rparr>) w"
    by simp
next
  assume h: "py_contains ''assetExportOptions'' (config t) = Inr False \<and>
       py_getitem (config t) ''fileExportOptions'' = Inr feo \<and>
       py_contains ''cloudStorageDestination'' feo = Inr True \<and>
       py_getitem feo ''fileFormat'' = Inr (PyStr file_format) \<and>
       py_path feo [''cloudStorageDestination'', ''filenamePrefix''] = Inr pfx"
  assume "remove_underscores (map ascii_lower file_format)
            = remove_underscores (map ascii_lower ''TFRecordImage'')"
  then have "remove_underscores (map ascii_lower file_format) = ''tfrecordimage''"
    by (simp only: normalized_TFRecordImage)
  then have "normalize_format (map ascii_lower file_format) = ''tfrecord''"
    by (simp add: normalize_format_def)
  with h have "resolve repr (config t) = Inr (Path (PyStr (py_str repr pfx @ ''.tfrecord'')))"
    by (simp add: resolve_cloud)
  then show "export_destinations repr (t # ts) tm w
                = export_destinations repr ts
                    (tm\<lparr>paths := paths tm @ [PyStr (py_str repr pfx @ ''.tfrecord'')]\<rparr>) w"
    by simp
qed

theorem export_destination_paths_witness:
  "export_destinations (\<lambda>v. ''?'') [ended_task (asset_config ''users/me/img'') COMPLETED]
       (TasksManager [] None) world0
     = (Inr (), (TasksManager [] None)\<lparr>paths := [PyStr ''users/me/img'']\<rparr>, world0)
   \<and> export_destinations (\<lambda>v. ''?'') [ended_task (gcs_config ''GEO_TIFF'' ''out/a'') COMPLETED]
       (TasksManager [] None) world0
     = (Inr (), (TasksManager [] None)\<lparr>paths := [PyStr ''out/a.tif'']\<rparr>, world0)
   \<and> export_destinations (\<lambda>v. ''?'')
       [ended_task (gcs_config ''TFRecord_Image'' ''out/b'') COMPLETED]
       (TasksManager [] None) world0
     = (Inr (), (TasksManager [] None)\<lparr>paths := [PyStr ''out/b.tfrecord'']\<rparr>, world0)"
proof -
  let ?feo = "\<lambda>f p. PyDict [(''fileFormat'', PyStr f),
               (''cloudStorageDestination'',
                  PyDict [(''bucket'', PyStr ''crop-identification''),
                          (''filenamePrefix'', PyStr p)])]"
  have a: "export_destinations (\<lambda>v. ''?'') [ended_task (asset_config ''users/me/img'') COMPLETED]
       (TasksManager [] None) world0
     = (Inr (), (TasksManager [] None)\<lparr>paths := [PyStr ''users/me/img'']\<rparr>, world0)"
    using export_destination_paths [where t = "ended_task (asset_config ''users/me/img'') COMPLETED"
        and name = "PyStr ''users/me/img''" and ts = "[]" and tm = "TasksManager [] None"
        and w = world0 and repr = "\<lambda>v. ''?''"]
    by (simp add: ended_task_def asset_config_def TasksManager_def)
  have b: "export_destinations (\<lambda>v. ''?'') [ended_task (gcs_config ''GEO_TIFF'' ''out/a'') COMPLETED]
       (TasksManager [] None) world0
     = (Inr (), (TasksManager [] None)\<lparr>paths := [PyStr ''out/a.tif'']\<rparr>, world0)"
    using export_destination_paths [where t = "ended_task (gcs_config ''GEO_TIFF'' ''out/a'') COMPLETED"
        and feo = "?feo ''GEO_TIFF'' ''out/a''" and file_format = "''GEO_TIFF''"
        and pfx = "PyStr ''out/a''" and ts = "[]" and tm = "TasksManager [] None"
        and w = world0 and repr = "\<lambda>v. ''?''"] normalized_GEO_TIFF
    by (simp add: ended_task_def gcs_config_def TasksManager_def)
  have c: "export_destinations (\<lambda>v. ''?'')
       [ended_task (gcs_config ''TFRecord_Image'' ''out/b'') COMPLETED]
       (TasksManager [] None) world0
     = (Inr (), (TasksManager [] None)\<lparr>paths := [PyStr ''out/b.tfrecord'']\<rparr>, world0)"
    using export_destination_paths
        [where t = "ended_task (gcs_config ''TFRecord_Image'' ''out/b'') COMPLETED"
        and feo = "?feo ''TFRecord_Image'' ''out/b''" and file_format = "''TFRecord_Image''"
        and pfx = "PyStr ''out/b''" and ts = "[]" and tm = "TasksManager [] None"
        and w = world0 and repr = "\<lambda>v. ''?''"] normalized_TFRecord_Image
    by (simp add: ended_task_def gcs_config_def TasksManager_def)
  from a b c show ?thesis by blast
qed

section \<open>A configuration with neither key\<close>

text \<open>
  C5. The claim says that every task whose configuration is no recognized export
  destination makes \<^verbatim>\<open>get_export_destination\<close> raise ValueError and log it. A
  configuration that has neither \<^verbatim>\<open>"assetExportOptions"\<close> nor
  \<^verbatim>\<open>"fileExportOptions"\<close> does not reach the \<^verbatim>\<open>else\<close> branch: the test of the
  \<^verbatim>\<open>elif\<close> subscripts \<^verbatim>\<open>task.config["fileExportOptions"]\<close> and raises KeyError,
  and nothing is printed or logged although the manager has a logger. The
  \<^verbatim>\<open>else\<close> branch itself does what the claim says
  (\<open>export_destinations_unsupported\<close>, \<open>resolve_unsupported_iff\<close>).
\<close>

theorem unrecognized_config_raises_key_error:
  "get_export_destination repr (TasksManager [ended_task tile_config COMPLETED] (Some ''log''))
       None world0
     = (Inl (KeyError ''fileExportOptions''),
        TasksManager [ended_task tile_config COMPLETED] (Some ''log''), world0)"
  by (simp add: get_export_destination_def TasksManager_def ended_task_def tile_config_def
      resolve_def)

section \<open>The paths of a manager\<close>

text \<open>
  C6. A new manager has no paths. Whatever poll returns, and however long it runs, the
  manager it leaves has the paths it had. \<^verbatim>\<open>get_export_destination\<close> leaves the
  paths it found as a prefix of the paths it leaves, whether it returns or raises: it only
  appends.
\<close>

theorem paths_only_grow:
  "paths (TasksManager ts lg) = []
   \<and> (poll fuel tm u mr bf w = Some (res, tm', w') \<longrightarrow> paths tm' = paths tm)
   \<and> (\<exists>new. paths (fst (snd (get_export_destination repr tm targ w))) = paths tm @ new)"
proof (intro conjI impI)
  show "paths (TasksManager ts lg) = []" by (simp add: TasksManager_def)
next
  assume "poll fuel tm u mr bf w = Some (res, tm', w')"
  then have "tm' = tm" unfolding poll_def by (rule poll_loop_manager)
  then show "paths tm' = paths tm" by simp
next
  define tm1 where "tm1 = (case targ of None \<Rightarrow> tm
      | Some ts \<Rightarrow> if ts \<noteq> [] then tm\<lparr>tasks := ts\<rparr> else tm)"
  have p: "paths tm1 = paths tm" by (simp add: tm1_def split: option.splits)
  obtain res tm2 w2 where r: "export_destinations repr (tasks tm1) tm1 w = (res, tm2, w2)"
    by (cases "export_destinations repr (tasks tm1) tm1 w") auto
  from export_destinations_extends [OF r] obtain new where "tm2 = tm1\<lparr>paths := paths tm1 @ new\<rparr>"
    by blast
  with p r have "paths (fst (snd (get_export_destination repr tm targ w))) = paths tm @ new"
    by (simp add: get_export_destination_def tm1_def [symmetric])
  then show "\<exists>new. paths (fst (snd (get_export_destination repr tm targ w))) = paths tm @ new"
    by blast
qed

theorem paths_only_grow_witness:
  "poll 1 (TasksManager [ended_task drive_config COMPLETED] None) (\<lambda>n. 0) 5 2 world0
     = Some (Inr True, TasksManager [ended_task drive_config COMPLETED] None, world0\<lparr>clock := 2\<rparr>)
   \<and> paths (TasksManager [ended_task drive_config COMPLETED] None) = []"
  using paths_only_grow [where ts = "[ended_task drive_config COMPLETED]" and lg = None
      and fuel = 1 and tm = "TasksManager [ended_task drive_config COMPLETED] None"
      and u = "\<lambda>n. 0" and mr = 5 and bf = 2 and w = world0 and res = "Inr True"
      and tm' = "TasksManager [ended_task drive_config COMPLETED] None"
      and w' = "world0\<lparr>clock := 2\<rparr>"]
  by (simp add: poll_def TasksManager_def ended_task_def world0_def)

section \<open>Errors and repeated calls of get_export_destination\<close>

text \<open>
  C9. First part: when the tasks before the task \<open>t\<close> all resolve to a path and the
  configuration of \<open>t\<close> falls into the \<^verbatim>\<open>else\<close> branch, the call raises ValueError
  and the manager keeps the paths of the tasks before \<open>t\<close>, one per task, after the paths
  it had. Second part: when a call without argument returns, it has appended one path per
  task, and a second call on the manager it left returns as well and appends the same
  paths once more.
\<close>

theorem get_export_destination_not_atomic:
  "(map (\<lambda>t. resolve repr (config t)) pre = map (\<lambda>p. Inr (Path p)) ps \<and>
    resolve repr (config t) = Inr Unsupported \<longrightarrow>
      length ps = length pre \<and>
      get_export_destination repr (tm\<lparr>tasks := pre @ t # rest\<rparr>) None w
        = (Inl (ValueError (UnsupportedExportDestination (config t))),
           tm\<lparr>tasks := pre @ t # rest, paths := paths tm @ ps\<rparr>,
           w\<lparr>events := events w @ Print (UnsupportedExportDestination (config t)) #
                (case logger tm of None \<Rightarrow> []
                 | Some lg \<Rightarrow> [LogError (UnsupportedExportDestination (config t))])\<rparr>))
   \<and> (get_export_destination repr tm None w = (Inr (), tma, wa) \<longrightarrow>
        (\<exists>new. length new = length (tasks tm) \<and> paths tma = paths tm @ new \<and>
           get_export_destination repr tma None wa
             = (Inr (), tma\<lparr>paths := paths tm @ new @ new\<rparr>, wa)))"
proof (intro conjI impI)
  assume h: "map (\<lambda>t. resolve repr (config t)) pre = map (\<lambda>p. Inr (Path p)) ps \<and>
    resolve repr (config t) = Inr Unsupported"
  then have m: "map (\<lambda>t. resolve repr (config t)) pre = map (\<lambda>p. Inr (Path p)) ps"
    and u: "resolve repr (config t) = Inr Unsupported" by simp_all
  from m have "length (map (\<lambda>t. resolve repr (config t)) pre)
      = length (map (\<lambda>p. Inr (Path p) :: exn + destination) ps)" by simp
  then show "length ps = length pre" by simp
  let ?tm = "tm\<lparr>tasks := pre @ t # rest\<rparr>"
  have "export_destinations repr (pre @ t # rest) ?tm w
          = export_destinations repr (t # rest) (?tm\<lparr>paths := paths ?tm @ ps\<rparr>) w"
    by (rule export_destinations_append [OF m])
  also have "\<dots> = (Inl (ValueError (UnsupportedExportDestination (config t))),
           tm\<lparr>tasks := pre @ t # rest, paths := paths tm @ ps\<rparr>,
           w\<lparr>events := events w @ Print (UnsupportedExportDestination (config t)) #
                (case logger tm of None \<Rightarrow> []
                 | Some lg \<Rightarrow> [LogError (UnsupportedExportDestination (config t))])\<rparr>)"
    by (subst export_destinations_unsupported [OF u]) simp
  finally show "get_export_destination repr ?tm None w
        = (Inl (ValueError (UnsupportedExportDestination (config t))),
           tm\<lparr>tasks := pre @ t # rest, paths := paths tm @ ps\<rparr>,
           w\<lparr>events := events w @ Print (UnsupportedExportDestination (config t)) #
                (case logger tm of None \<Rightarrow> []
                 | Some lg \<Rightarrow> [LogError (UnsupportedExportDestination (config t))])\<rparr>)"
    by (simp add: get_export_destination_def)
next
  assume "get_export_destination repr tm None w = (Inr (), tma, wa)"
  then have r: "export_destinations repr (tasks tm) tm w = (Inr (), tma, wa)"
    by (simp add: get_export_destination_def)
  from export_destinations_success [OF r] obtain ps where
    m: "map (\<lambda>t. resolve repr (config t)) (tasks tm) = map (\<lambda>p. Inr (Path p)) ps"
    and t: "tma = tm\<lparr>paths := paths tm @ ps\<rparr>" and w: "wa = w" by blast
  from m have "length (map (\<lambda>t. resolve repr (config t)) (tasks tm))
      = length (map (\<lambda>p. Inr (Path p) :: exn + destination) ps)" by simp
  then have l: "length ps = length (tasks tm)" by simp
  have "export_destinations repr (tasks tm @ []) tma wa
          = export_destinations repr [] (tma\<lparr>paths := paths tma @ ps\<rparr>) wa"
    by (rule export_destinations_append [OF m])
  with t have "get_export_destination repr tma None wa
             = (Inr (), tma\<lparr>paths := paths tm @ ps @ ps\<rparr>, wa)"
    by (simp add: get_export_destination_def)
  with l t show "\<exists>new. length new = length (tasks tm) \<and> paths tma = paths tm @ new \<and>
           get_export_destination repr tma None wa
             = (Inr (), tma\<lparr>paths := paths tm @ new @ new\<rparr>, wa)"
    by auto
qed

theorem get_export_destination_not_atomic_witness:
  "get_export_destination (\<lambda>v. ''?'')
      ((TasksManager [] (Some ''log''))
         \<lparr>tasks := [ended_task (asset_config ''users/me/img'') COMPLETED]
                    @ ended_task drive_config COMPLETED
                    # [ended_task (gcs_config ''GEO_TIFF'' ''out/a'') COMPLETED]\<rparr>)
      None world0
     = (Inl (ValueError (UnsupportedExportDestination drive_config)),
        (TasksManager [] (Some ''log''))
         \<lparr>tasks := [ended_task (asset_config ''users/me/img'') COMPLETED]
                    @ ended_task drive_config COMPLETED
                    # [ended_task (gcs_config ''GEO_TIFF'' ''out/a'') COMPLETED],
           paths := [PyStr ''users/me/img'']\<rparr>,
        world0\<lparr>events := [Print (UnsupportedExportDestination drive_config),
                            LogError (UnsupportedExportDestination drive_config)]\<rparr>)
   \<and> get_export_destination (\<lambda>v. ''?'')
        (TasksManager [ended_task (asset_config ''users/me/img'') COMPLETED] None) None world0
     = (Inr (), (TasksManager [ended_task (asset_config ''users/me/img'') COMPLETED] None)
                  \<lparr>paths := [PyStr ''users/me/img'']\<rparr>, world0)
   \<and> get_export_destination (\<lambda>v. ''?'')
        ((TasksManager [ended_task (asset_config ''users/me/img'') COMPLETED] None)
                  \<lparr>paths := [PyStr ''users/me/img'']\<rparr>) None world0
     = (Inr (), (TasksManager [ended_task (asset_config ''users/me/img'') COMPLETED] None)
                  \<lparr>paths := [PyStr ''users/me/img'', PyStr ''users/me/img'']\<rparr>, world0)"
proof -
  let ?a = "ended_task (asset_config ''users/me/img'') COMPLETED"
  let ?d = "ended_task drive_config COMPLETED"
  let ?g = "ended_task (gcs_config ''GEO_TIFF'' ''out/a'') COMPLETED"
  let ?r = "\<lambda>v::pyval. ''?''"
  have ra: "resolve ?r (config ?a) = Inr (Path (PyStr ''users/me/img''))"
    by (simp add: ended_task_def resolve_asset_example)
  have rd: "resolve ?r (config ?d) = Inr Unsupported"
    by (simp add: ended_task_def resolve_drive_example)
  have one: "get_export_destination ?r (TasksManager [?a] None) None world0
     = (Inr (), (TasksManager [?a] None)\<lparr>paths := [PyStr ''users/me/img'']\<rparr>, world0)"
    by (simp add: get_export_destination_def TasksManager_def ra)
  from get_export_destination_not_atomic [where repr = ?r and pre = "[?a]"
      and ps = "[PyStr ''users/me/img'']" and t = ?d and rest = "[?g]"
      and tm = "TasksManager [] (Some ''log'')" and w = world0] ra rd
  have first: "get_export_destination ?r
      ((TasksManager [] (Some ''log''))\<lparr>tasks := [?a] @ ?d # [?g]\<rparr>) None world0
     = (Inl (ValueError (UnsupportedExportDestination drive_config)),
        (TasksManager [] (Some ''log''))
          \<lparr>tasks := [?a] @ ?d # [?g], paths := [PyStr ''users/me/img'']\<rparr>,
        world0\<lparr>events := [Print (UnsupportedExportDestination drive_config),
                            LogError (UnsupportedExportDestination drive_config)]\<rparr>)"
    by (simp add: TasksManager_def world0_def ended_task_def)
  from get_export_destination_not_atomic [where repr = ?r and tm = "TasksManager [?a] None"
      and w = world0
      and tma = "(TasksManager [?a] None)\<lparr>paths := [PyStr ''users/me/img'']\<rparr>"
      and wa = world0] one
  have twice: "get_export_destination ?r
        ((TasksManager [?a] None)\<lparr>paths := [PyStr ''users/me/img'']\<rparr>) None world0
     = (Inr (), (TasksManager [?a] None)
                  \<lparr>paths := [PyStr ''users/me/img'', PyStr ''users/me/img'']\<rparr>, world0)"
    by (auto simp: TasksManager_def)
  from first one twice show ?thesis by blast
qed

section \<open>One task per collection item\<close>



section \<open>The caller's export options\<close>

text \<open>
  C10. Whatever \<^verbatim>\<open>export_im_collection\<close> does (return or raise, for every
  collection and every answer of the client library), the dictionary object at the address
  \<open>export_options\<close> has afterwards the content it had before, and so has every other
  object that existed before the call: the function writes to the copies it allocates.
\<close>

theorem export_options_not_mutated:
  "heap_read (fst (snd (export_im_collection api repr description eo property lg h w))) eo
     = heap_read h eo
   \<and> take (length h) (fst (snd (export_im_collection api repr description eo property lg h w)))
     = h"
proof -
  obtain res h' w' where
    r: "export_im_collection api repr description eo property lg h w = (res, h', w')"
    by (cases "export_im_collection api repr description eo property lg h w") auto
  show ?thesis
  proof (cases "getInfo api property")
    case (Inl e)
    then show ?thesis by (simp add: export_im_collection_def)
  next
    case (Inr idxs)
    obtain lres lh lw where
      l: "export_loop api repr description eo property idxs [] h w = (lres, lh, lw)"
      by (cases "export_loop api repr description eo property idxs [] h w") auto
    from l Inr have f: "fst (snd (export_im_collection api repr description eo property lg h w)) = lh"
      by (simp add: export_im_collection_def split: sum.splits)
    from export_loop_options_kept [of api repr description eo property idxs "[]" h w] l
    have "heap_read lh eo = heap_read h eo" by simp
    moreover from export_loop_keeps [OF l] have "take (length h) lh = h" .
    ultimately show ?thesis using f by simp
  qed
qed

theorem export_options_not_mutated_witness:
  "heap_read (fst (snd (export_im_collection example_api (\<lambda>v. ''?'') (PyStr ''test_s2'') 0
       ''system:index'' None example_heap world0))) 0
     = Some [(''fileFormat'', PyStr ''GeoTIFF''), (''fileNamePrefix'', PyStr ''woolpert_example''),
             (''bucket'', PyStr ''crop-identification'')]
   \<and> length (fst (snd (export_im_collection example_api (\<lambda>v. ''?'') (PyStr ''test_s2'') 0
       ''system:index'' None example_heap world0))) = 4"
  using export_options_not_mutated [where api = example_api and repr = "\<lambda>v. ''?''"
      and description = "PyStr ''test_s2''" and eo = 0 and property = "''system:index''"
      and lg = None and h = example_heap and w = world0]
    example_run
  by (simp add: heap_read_def example_heap_def)

end
